theory Spec2Isabelle
  imports Main
begin

section \<open>SecureVote camera script (static/js/camera.js)\<close>

text \<open>
  The script is five browser functions around one global, \<open>streamRef\<close>. Everything it
  touches is kept in one record, the world: the global itself, the three page elements it
  looks up by id, the state of the media tracks the browser has handed out, the page's
  address, and the list of the effects that left the script (console lines, camera
  requests, network requests, tracks ending, timers set), in the order they happened.

  An \<open>async\<close> function is modelled run to completion: what each awaited browser call
  settles to (resolved or rejected) is an argument of the function, and the page's
  elements are taken not to be added or removed while a flow is suspended.

  The element with the id \<open>video\<close>, where the page has one, is taken to be a video
  element, and the one with the id \<open>canvas\<close> a canvas that gives a 2d context and may be
  read back. Every network request is a POST of a JSON document.

  Strings are byte strings in UTF-8, so the three pictographs of the status texts are
  three bytes each.
\<close>

subsection \<open>Values handed over by the browser\<close>

datatype js_error = DOMException string | TypeError string | SyntaxError string

fun message :: "js_error \<Rightarrow> string" where
  "message (DOMException m) = m"
| "message (TypeError m) = m"
| "message (SyntaxError m) = m"

text \<open>
  A parsed JSON document. A number is kept as the two things a script can read from it
  here: whether it is non-zero, and the text JavaScript prints for it.
\<close>

datatype json =
    JNull
  | JBool bool
  | JNumber bool string
  | JString string
  | JArray "json list"
  | JObject "(string \<times> json) list"

text \<open>The value of an expression: \<open>None\<close> is \<open>undefined\<close>.\<close>

type_synonym jsval = "json option"

fun truthy :: "jsval \<Rightarrow> bool" where
  "truthy None = False"
| "truthy (Some JNull) = False"
| "truthy (Some (JBool b)) = b"
| "truthy (Some (JNumber nonzero txt)) = nonzero"
| "truthy (Some (JString s)) = (s \<noteq> [])"
| "truthy (Some (JArray xs)) = True"
| "truthy (Some (JObject kvs)) = True"

fun join_comma :: "string list \<Rightarrow> string" where
  "join_comma [] = []"
| "join_comma [s] = s"
| "join_comma (s # t # ss) = s @ '','' @ join_comma (t # ss)"

text \<open>What \<open>"" + v\<close> gives for a parsed value \<open>v\<close>.\<close>

fun to_string :: "json \<Rightarrow> string" where
  "to_string JNull = ''null''"
| "to_string (JBool b) = (if b then ''true'' else ''false'')"
| "to_string (JNumber nonzero txt) = txt"
| "to_string (JString s) = s"
| "to_string (JArray xs) = join_comma (map (\<lambda>x. if x = JNull then [] else to_string x) xs)"
| "to_string (JObject kvs) = ''[object Object]''"

definition val_to_string :: "jsval \<Rightarrow> string" where
  "val_to_string v = (case v of None \<Rightarrow> ''undefined'' | Some j \<Rightarrow> to_string j)"

text \<open>
  Reading the property \<open>ok\<close> or \<open>error\<close> of a parsed document: a \<open>TypeError\<close> on
  \<open>null\<close>, the member of that name on an object (the last one, where the text repeated
  the name), \<open>undefined\<close> on every other value.
\<close>

fun get_prop :: "json \<Rightarrow> string \<Rightarrow> js_error + jsval" where
  "get_prop JNull k = Inl (TypeError (''Cannot read properties of null (reading '' @ k @ '')''))"
| "get_prop (JObject kvs) k = Inr (map_of (rev kvs) k)"
| "get_prop v k = Inr None"

text \<open>
  A response of \<open>fetch\<close>: \<open>ok\<close> is \<open>response.ok\<close> (the HTTP status is 2xx), \<open>json_body\<close>
  is what \<open>response.json()\<close> settles to.
\<close>

record response =
  ok :: bool
  json_body :: "js_error + json"

datatype ready_state = Live | Ended

text \<open>A \<open>MediaStream\<close>: its identity and the tracks \<open>getTracks()\<close> lists.\<close>

record media_stream =
  stream_id :: nat
  getTracks :: "nat list"

subsection \<open>The page\<close>

text \<open>
  The video element's \<open>picture\<close> is the frame it shows, given as the base64 text of the
  JPEG the browser's encoder makes of it at quality 0.9.
\<close>

record video_element =
  srcObject :: "media_stream option"
  videoWidth :: nat
  videoHeight :: nat
  picture :: string

record canvas_element =
  canvas_width :: nat
  canvas_height :: nat
  drawn :: "string option"

datatype console_arg = Msg string | ErrObj js_error

datatype event =
    ConsoleError console_arg
  | GetUserMedia
  | Play
  | Fetch string json
  | TrackEnded nat
  | SetTimeout nat string

record world =
  streamRef :: "media_stream option"
  video_el :: "video_element option"
  canvas_el :: "canvas_element option"
  status_el :: "string option"
  mediaDevices :: bool
  track_state :: "nat \<Rightarrow> ready_state"
  location_href :: string
  effects :: "event list"

definition emit :: "event \<Rightarrow> world \<Rightarrow> world" where
  "emit e w = w\<lparr>effects := effects w @ [e]\<rparr>"

definition console_error :: "console_arg \<Rightarrow> world \<Rightarrow> world" where
  "console_error a w = emit (ConsoleError a) w"

text \<open>\<open>if (status) status.textContent = txt\<close>\<close>

definition set_status :: "string \<Rightarrow> world \<Rightarrow> world" where
  "set_status txt w = (case status_el w of None \<Rightarrow> w | Some old \<Rightarrow> w\<lparr>status_el := Some txt\<rparr>)"

text \<open>
  \<open>setTimeout(() => window.location.href = url, delay)\<close>, and the callback when the
  timer fires.
\<close>

definition setTimeout_redirect :: "nat \<Rightarrow> string \<Rightarrow> world \<Rightarrow> world" where
  "setTimeout_redirect delay url w = emit (SetTimeout delay url) w"

definition timer_fires :: "string \<Rightarrow> world \<Rightarrow> world" where
  "timer_fires url w = w\<lparr>location_href := url\<rparr>"

definition check_mark :: string where
  "check_mark = [CHR 0xE2, CHR 0x9C, CHR 0x85]"

definition cross_mark :: string where
  "cross_mark = [CHR 0xE2, CHR 0x9D, CHR 0x8C]"

definition warning_sign :: string where
  "warning_sign = [CHR 0xE2, CHR 0x9A, CHR 0xA0]"

subsection \<open>startCamera\<close>

definition camera_catch :: "js_error \<Rightarrow> world \<Rightarrow> world" where
  "camera_catch err w =
     set_status (cross_mark @ '' Camera error: '' @ message err) (console_error (ErrObj err) w)"

definition startCamera :: "world \<Rightarrow> (js_error + media_stream) \<Rightarrow> (js_error + unit) \<Rightarrow> world" where
  "startCamera w acquired played =
     (case video_el w of
        None \<Rightarrow> console_error (Msg ''Video element not found.'') w
      | Some video \<Rightarrow>
          if \<not> mediaDevices w then set_status ''Camera not supported in this browser.'' w
          else
            (let w1 = emit GetUserMedia w in
             case acquired of
               Inl err \<Rightarrow> camera_catch err w1
             | Inr stream \<Rightarrow>
                 (let w2 = w1\<lparr>streamRef := Some stream\<rparr>;
                      w3 = w2\<lparr>video_el := Some (video\<lparr>srcObject := streamRef w2\<rparr>)\<rparr>;
                      w4 = emit Play w3
                  in case played of
                       Inl err \<Rightarrow> camera_catch err w4
                     | Inr u \<Rightarrow> set_status (check_mark @ '' Camera started successfully.'') w4)))"

subsection \<open>stopCamera\<close>

text \<open>
  \<open>track.stop()\<close> is the browser's: on a track that has ended it does nothing; on a live
  one it tells the source that the track has ended (the camera is released) and sets the
  track's state to ended.
\<close>

definition track_stop :: "nat \<Rightarrow> world \<Rightarrow> world" where
  "track_stop t w =
     (if track_state w t = Ended then w
      else emit (TrackEnded t) (w\<lparr>track_state := (track_state w)(t := Ended)\<rparr>))"

definition stopCamera :: "world \<Rightarrow> world" where
  "stopCamera w =
     (case streamRef w of
        None \<Rightarrow> w
      | Some stream \<Rightarrow> fold track_stop (getTracks stream) w)"

subsection \<open>captureImageBase64\<close>

text \<open>\<open>canvas.toDataURL("image/jpeg", 0.9)\<close> on a canvas something was drawn on.\<close>

definition toDataURL :: "canvas_element \<Rightarrow> string" where
  "toDataURL c = ''data:image/jpeg;base64,'' @ (case drawn c of None \<Rightarrow> [] | Some p \<Rightarrow> p)"

definition captureImageBase64 :: "world \<Rightarrow> world \<times> string option" where
  "captureImageBase64 w =
     (case video_el w of
        None \<Rightarrow> (w, None)
      | Some video \<Rightarrow>
          (case canvas_el w of
             None \<Rightarrow> (w, None)
           | Some canvas \<Rightarrow>
               (let width = videoWidth video; height = videoHeight video in
                if width = 0 \<or> height = 0 then (w, None)
                else
                  (let canvas1 = canvas\<lparr>canvas_width := width, canvas_height := height, drawn := None\<rparr>;
                       canvas2 = canvas1\<lparr>drawn := Some (picture video)\<rparr>
                   in (w\<lparr>canvas_el := Some canvas2\<rparr>, Some (toDataURL canvas2))))))"

text \<open>\<open>!image\<close> for what \<open>captureImageBase64\<close> returned: \<open>null\<close> or the empty string.\<close>

definition no_image :: "string option \<Rightarrow> bool" where
  "no_image img = (case img of None \<Rightarrow> True | Some s \<Rightarrow> s = [])"

subsection \<open>The three submit flows\<close>

text \<open>
  The body of each request is \<open>JSON.stringify({ image: image })\<close>; the effect list keeps
  the document that is sent. Each flow's \<open>try\<close> block is a function of its own that
  gives the world it ends in, or the error it throws; nothing in a block changes the world
  before a throw, so the \<open>catch\<close> continues from the world the block started in.
\<close>

definition image_body :: "string option \<Rightarrow> json" where
  "image_body img = JObject [(''image'', case img of None \<Rightarrow> JNull | Some s \<Rightarrow> JString s)]"

text \<open>\<open>!response.ok || !data.ok\<close>: the right operand is only read when the left is false.\<close>

definition rejected :: "response \<Rightarrow> json \<Rightarrow> js_error + bool" where
  "rejected resp data =
     (if \<not> ok resp then Inr True
      else case get_prop data ''ok'' of Inl err \<Rightarrow> Inl err | Inr v \<Rightarrow> Inr (\<not> truthy v))"

text \<open>
  \<open>if (status) status.textContent = "X " + (data.error || fallback)\<close>: without a status
  element \<open>data.error\<close> is not read.
\<close>

definition show_rejection :: "json \<Rightarrow> string \<Rightarrow> world \<Rightarrow> js_error + world" where
  "show_rejection data fallback w =
     (case status_el w of
        None \<Rightarrow> Inr w
      | Some old \<Rightarrow>
          (case get_prop data ''error'' of
             Inl err \<Rightarrow> Inl err
           | Inr v \<Rightarrow>
               Inr (w\<lparr>status_el :=
                      Some (cross_mark @ '' '' @ (if truthy v then val_to_string v else fallback))\<rparr>)))"

definition register_try :: "world \<Rightarrow> (js_error + response) \<Rightarrow> js_error + world" where
  "register_try w fetched =
     (case fetched of
        Inl err \<Rightarrow> Inl err
      | Inr resp \<Rightarrow>
          (case json_body resp of
             Inl err \<Rightarrow> Inl err
           | Inr data \<Rightarrow>
               (case rejected resp data of
                  Inl err \<Rightarrow> Inl err
                | Inr True \<Rightarrow> show_rejection data ''Registration failed.'' w
                | Inr False \<Rightarrow>
                    Inr (setTimeout_redirect 1200 ''/elections''
                          (stopCamera
                            (set_status (check_mark @ '' Registration successful! Redirecting...'') w))))))"

definition captureAndRegister :: "world \<Rightarrow> (js_error + response) \<Rightarrow> world" where
  "captureAndRegister w fetched =
     (case captureImageBase64 w of
        (w1, img) \<Rightarrow>
          if no_image img then set_status (warning_sign @ '' Please start camera first.'') w1
          else
            (let w2 = set_status ''Uploading face for registration...'' w1;
                 w3 = emit (Fetch ''/api/register-face'' (image_body img)) w2
             in case register_try w3 fetched of
                  Inr w4 \<Rightarrow> w4
                | Inl err \<Rightarrow>
                    set_status (cross_mark @ '' Server error during registration.'')
                      (console_error (ErrObj err) w3)))"

definition verify_try :: "world \<Rightarrow> (js_error + response) \<Rightarrow> js_error + world" where
  "verify_try w fetched =
     (case fetched of
        Inl err \<Rightarrow> Inl err
      | Inr resp \<Rightarrow>
          (case json_body resp of
             Inl err \<Rightarrow> Inl err
           | Inr data \<Rightarrow>
               (case rejected resp data of
                  Inl err \<Rightarrow> Inl err
                | Inr True \<Rightarrow> show_rejection data ''Verification failed.'' w
                | Inr False \<Rightarrow>
                    Inr (stopCamera (set_status (check_mark @ '' Face verified successfully!'') w)))))"

definition captureAndVerifyVote :: "world \<Rightarrow> (js_error + response) \<Rightarrow> world" where
  "captureAndVerifyVote w fetched =
     (case captureImageBase64 w of
        (w1, img) \<Rightarrow>
          if no_image img then set_status (warning_sign @ '' Please start camera first.'') w1
          else
            (let w2 = set_status ''Verifying face...'' w1;
                 w3 = emit (Fetch ''/api/vote-face-verify'' (image_body img)) w2
             in case verify_try w3 fetched of
                  Inr w4 \<Rightarrow> w4
                | Inl err \<Rightarrow>
                    set_status (cross_mark @ '' Server error during verification.'')
                      (console_error (ErrObj err) w3)))"

definition login_try :: "world \<Rightarrow> (js_error + response) \<Rightarrow> js_error + world" where
  "login_try w fetched =
     (case fetched of
        Inl err \<Rightarrow> Inl err
      | Inr resp \<Rightarrow>
          (case json_body resp of
             Inl err \<Rightarrow> Inl err
           | Inr data \<Rightarrow>
               (case rejected resp data of
                  Inl err \<Rightarrow> Inl err
                | Inr True \<Rightarrow> show_rejection data ''Login failed.'' w
                | Inr False \<Rightarrow>
                    Inr (setTimeout_redirect 1000 ''/elections''
                          (stopCamera
                            (set_status (check_mark @ '' Login successful! Redirecting...'') w))))))"

definition captureAndLogin :: "world \<Rightarrow> (js_error + response) \<Rightarrow> world" where
  "captureAndLogin w fetched =
     (case captureImageBase64 w of
        (w1, img) \<Rightarrow>
          if no_image img then set_status (warning_sign @ '' Please start camera first.'') w1
          else
            (let w2 = set_status ''Verifying face for login...'' w1;
                 w3 = emit (Fetch ''/api/login-face-verify'' (image_body img)) w2
             in case login_try w3 fetched of
                  Inr w4 \<Rightarrow> w4
                | Inl err \<Rightarrow>
                    set_status (cross_mark @ '' Server error during login.'')
                      (console_error (ErrObj err) w3)))"

subsection \<open>Reading the effect list\<close>

text \<open>The timers a list of effects holds, and the network requests.\<close>

fun timeout_of :: "event \<Rightarrow> (nat \<times> string) list" where
  "timeout_of (SetTimeout delay url) = [(delay, url)]"
| "timeout_of e = []"

definition timeouts :: "event list \<Rightarrow> (nat \<times> string) list" where
  "timeouts es = concat (map timeout_of es)"

fun request_of :: "event \<Rightarrow> (string \<times> json) list" where
  "request_of (Fetch url body) = [(url, body)]"
| "request_of e = []"

definition requests :: "event list \<Rightarrow> (string \<times> json) list" where
  "requests es = concat (map request_of es)"

subsection \<open>Sample pages\<close>

text \<open>
  A camera stream of one track; a page whose camera has not been started; the same page
  with the camera running and a frame of 640 by 480 on show.
\<close>

definition camera_stream :: media_stream where
  "camera_stream = \<lparr>stream_id = 1, getTracks = [7]\<rparr>"

definition page_idle :: world where
  "page_idle =
     \<lparr>streamRef = None,
      video_el = Some \<lparr>srcObject = None, videoWidth = 0, videoHeight = 0, picture = []\<rparr>,
      canvas_el = Some \<lparr>canvas_width = 300, canvas_height = 150, drawn = None\<rparr>,
      status_el = Some [],
      mediaDevices = True,
      track_state = (\<lambda>t. Live),
      location_href = ''/register'',
      effects = []\<rparr>"

definition page_live :: world where
  "page_live =
     page_idle
       \<lparr>streamRef := Some camera_stream,
        video_el := Some \<lparr>srcObject = Some camera_stream, videoWidth = 640, videoHeight = 480,
                           picture = ''/9j/4AAQSkZJRg==''\<rparr>\<rparr>"

section \<open>Properties\<close>

subsection \<open>What each step leaves alone\<close>

lemma emit_fields [simp]:
  "streamRef (emit e w) = streamRef w"
  "video_el (emit e w) = video_el w"
  "canvas_el (emit e w) = canvas_el w"
  "status_el (emit e w) = status_el w"
  "mediaDevices (emit e w) = mediaDevices w"
  "track_state (emit e w) = track_state w"
  "location_href (emit e w) = location_href w"
  "effects (emit e w) = effects w @ [e]"
  by (simp_all add: emit_def)

lemma set_status_fields [simp]:
  "streamRef (set_status txt w) = streamRef w"
  "video_el (set_status txt w) = video_el w"
  "canvas_el (set_status txt w) = canvas_el w"
  "mediaDevices (set_status txt w) = mediaDevices w"
  "track_state (set_status txt w) = track_state w"
  "location_href (set_status txt w) = location_href w"
  "effects (set_status txt w) = effects w"
  by (simp_all add: set_status_def split: option.split)

lemma status_el_set_status [simp]:
  "status_el (set_status txt w) = (case status_el w of None \<Rightarrow> None | Some old \<Rightarrow> Some txt)"
  by (simp add: set_status_def split: option.split)

lemma track_stop_fields [simp]:
  "streamRef (track_stop t w) = streamRef w"
  "video_el (track_stop t w) = video_el w"
  "canvas_el (track_stop t w) = canvas_el w"
  "status_el (track_stop t w) = status_el w"
  "mediaDevices (track_stop t w) = mediaDevices w"
  "location_href (track_stop t w) = location_href w"
  by (simp_all add: track_stop_def)

lemma track_state_track_stop [simp]:
  "track_state (track_stop t w) = (track_state w)(t := Ended)"
  by (auto simp: track_stop_def)

lemma track_stop_ended: "track_state w t = Ended \<Longrightarrow> track_stop t w = w"
  by (simp add: track_stop_def)

lemma fold_track_stop_fields [simp]:
  "streamRef (fold track_stop ts w) = streamRef w"
  "video_el (fold track_stop ts w) = video_el w"
  "canvas_el (fold track_stop ts w) = canvas_el w"
  "status_el (fold track_stop ts w) = status_el w"
  "mediaDevices (fold track_stop ts w) = mediaDevices w"
  "location_href (fold track_stop ts w) = location_href w"
  by (induction ts arbitrary: w; simp)+

lemma track_state_fold_track_stop:
  "track_state (fold track_stop ts w) t = (if t \<in> set ts then Ended else track_state w t)"
  by (induction ts arbitrary: w) auto

lemma fold_track_stop_all_ended:
  "\<forall>t\<in>set ts. track_state w t = Ended \<Longrightarrow> fold track_stop ts w = w"
  by (induction ts arbitrary: w) (simp_all add: track_stop_ended)

lemma stopCamera_fields [simp]:
  "streamRef (stopCamera w) = streamRef w"
  "video_el (stopCamera w) = video_el w"
  "canvas_el (stopCamera w) = canvas_el w"
  "status_el (stopCamera w) = status_el w"
  "mediaDevices (stopCamera w) = mediaDevices w"
  "location_href (stopCamera w) = location_href w"
  by (simp_all add: stopCamera_def split: option.split)

lemma console_error_fields [simp]:
  "streamRef (console_error a w) = streamRef w"
  "video_el (console_error a w) = video_el w"
  "canvas_el (console_error a w) = canvas_el w"
  "status_el (console_error a w) = status_el w"
  "mediaDevices (console_error a w) = mediaDevices w"
  "track_state (console_error a w) = track_state w"
  "location_href (console_error a w) = location_href w"
  "effects (console_error a w) = effects w @ [ConsoleError a]"
  by (simp_all add: console_error_def)

lemma setTimeout_redirect_fields [simp]:
  "streamRef (setTimeout_redirect d u w) = streamRef w"
  "video_el (setTimeout_redirect d u w) = video_el w"
  "canvas_el (setTimeout_redirect d u w) = canvas_el w"
  "status_el (setTimeout_redirect d u w) = status_el w"
  "mediaDevices (setTimeout_redirect d u w) = mediaDevices w"
  "track_state (setTimeout_redirect d u w) = track_state w"
  "location_href (setTimeout_redirect d u w) = location_href w"
  "effects (setTimeout_redirect d u w) = effects w @ [SetTimeout d u]"
  by (simp_all add: setTimeout_redirect_def)

lemma not_Ended_iff: "(s \<noteq> Ended) = (s = Live)"
  by (cases s) simp_all

lemma effects_fold_track_stop:
  "\<exists>ended. effects (fold track_stop ts w) = effects w @ map TrackEnded ended
      \<and> set ended = {t \<in> set ts. track_state w t = Live} \<and> distinct ended"
proof (induction ts arbitrary: w)
  case Nil
  then show ?case by simp
next
  case (Cons t ts)
  show ?case
  proof (cases "track_state w t = Ended")
    case True
    then have same: "track_stop t w = w" by (rule track_stop_ended)
    from Cons.IH [of w] obtain ended where
      e: "effects (fold track_stop ts w) = effects w @ map TrackEnded ended"
         "set ended = {u \<in> set ts. track_state w u = Live}" "distinct ended"
      by blast
    from True have "{u \<in> set (t # ts). track_state w u = Live} = {u \<in> set ts. track_state w u = Live}"
      by auto
    with e same show ?thesis by auto
  next
    case False
    let ?w1 = "track_stop t w"
    from False have eff: "effects ?w1 = effects w @ [TrackEnded t]"
      by (simp add: track_stop_def)
    from Cons.IH [of ?w1] obtain ended where
      e: "effects (fold track_stop ts ?w1) = effects ?w1 @ map TrackEnded ended"
         "set ended = {u \<in> set ts. track_state ?w1 u = Live}" "distinct ended"
      by blast
    from False have live: "track_state w t = Live" by (simp add: not_Ended_iff)
    have s: "{u \<in> set ts. track_state ?w1 u = Live} = {u \<in> set ts. track_state w u = Live} - {t}"
      by auto
    have "effects (fold track_stop (t # ts) w) = effects w @ map TrackEnded (t # ended)"
      using e(1) eff by simp
    moreover have "set (t # ended) = {u \<in> set (t # ts). track_state w u = Live}"
      using e(2) s live by auto
    moreover have "distinct (t # ended)"
      using e(2,3) s by auto
    ultimately show ?thesis by blast
  qed
qed

lemma effects_stopCamera:
  "\<exists>ended. effects (stopCamera w) = effects w @ map TrackEnded ended
      \<and> set ended = {t. \<exists>s. streamRef w = Some s \<and> t \<in> set (getTracks s) \<and> track_state w t = Live}
      \<and> distinct ended"
proof (cases "streamRef w")
  case None
  then have "effects (stopCamera w) = effects w @ map TrackEnded []" by (simp add: stopCamera_def)
  with None show ?thesis by auto
next
  case (Some s)
  from effects_fold_track_stop [of "getTracks s" w] obtain ended where
    "effects (fold track_stop (getTracks s) w) = effects w @ map TrackEnded ended"
    "set ended = {t \<in> set (getTracks s). track_state w t = Live}" "distinct ended"
    by blast
  with Some show ?thesis by (auto simp: stopCamera_def)
qed

lemma track_state_stopCamera:
  "track_state (stopCamera w) t =
     (if \<exists>s. streamRef w = Some s \<and> t \<in> set (getTracks s) then Ended else track_state w t)"
  by (simp add: stopCamera_def track_state_fold_track_stop split: option.split)

lemma toDataURL_nonempty: "toDataURL c \<noteq> []"
  by (simp add: toDataURL_def)

lemma captureImageBase64_fields [simp]:
  "streamRef (fst (captureImageBase64 w)) = streamRef w"
  "video_el (fst (captureImageBase64 w)) = video_el w"
  "status_el (fst (captureImageBase64 w)) = status_el w"
  "mediaDevices (fst (captureImageBase64 w)) = mediaDevices w"
  "track_state (fst (captureImageBase64 w)) = track_state w"
  "location_href (fst (captureImageBase64 w)) = location_href w"
  "effects (fst (captureImageBase64 w)) = effects w"
  by (simp_all add: captureImageBase64_def Let_def split: option.split)

lemma no_image_capture:
  "no_image (snd (captureImageBase64 w)) \<Longrightarrow> captureImageBase64 w = (w, None)"
  by (auto simp: captureImageBase64_def no_image_def Let_def toDataURL_def split: option.splits if_splits)

lemma image_capture:
  "\<not> no_image (snd (captureImageBase64 w)) \<Longrightarrow>
     \<exists>w1 uri. captureImageBase64 w = (w1, Some uri) \<and> uri \<noteq> [] \<and> w1 = fst (captureImageBase64 w)"
  by (cases "captureImageBase64 w") (auto simp: no_image_def split: option.splits)

lemma show_rejection_frame:
  "show_rejection data fb w = Inr w' \<Longrightarrow>
     streamRef w' = streamRef w \<and> track_state w' = track_state w \<and> effects w' = effects w
     \<and> video_el w' = video_el w \<and> canvas_el w' = canvas_el w \<and> location_href w' = location_href w"
  by (auto simp: show_rejection_def split: option.splits sum.splits)

lemma register_try_streamRef: "register_try w f = Inr w' \<Longrightarrow> streamRef w' = streamRef w"
  by (auto simp: register_try_def dest: show_rejection_frame split: sum.splits bool.splits)

lemma verify_try_streamRef: "verify_try w f = Inr w' \<Longrightarrow> streamRef w' = streamRef w"
  by (auto simp: verify_try_def dest: show_rejection_frame split: sum.splits bool.splits)

lemma login_try_streamRef: "login_try w f = Inr w' \<Longrightarrow> streamRef w' = streamRef w"
  by (auto simp: login_try_def dest: show_rejection_frame split: sum.splits bool.splits)

lemma streamRef_captureAndRegister: "streamRef (captureAndRegister w f) = streamRef w"
proof (cases "captureImageBase64 w")
  case (Pair w1 img)
  then have "streamRef w1 = streamRef w"
    using captureImageBase64_fields(1) [of w] by simp
  with Pair show ?thesis
    by (auto simp: captureAndRegister_def Let_def dest: register_try_streamRef split: sum.splits)
qed

lemma streamRef_captureAndVerifyVote: "streamRef (captureAndVerifyVote w f) = streamRef w"
proof (cases "captureImageBase64 w")
  case (Pair w1 img)
  then have "streamRef w1 = streamRef w"
    using captureImageBase64_fields(1) [of w] by simp
  with Pair show ?thesis
    by (auto simp: captureAndVerifyVote_def Let_def dest: verify_try_streamRef split: sum.splits)
qed

lemma streamRef_captureAndLogin: "streamRef (captureAndLogin w f) = streamRef w"
proof (cases "captureImageBase64 w")
  case (Pair w1 img)
  then have "streamRef w1 = streamRef w"
    using captureImageBase64_fields(1) [of w] by simp
  with Pair show ?thesis
    by (auto simp: captureAndLogin_def Let_def dest: login_try_streamRef split: sum.splits)
qed

lemma streamRef_startCamera:
  "streamRef (startCamera w acquired played) =
     (case acquired of
        Inl err \<Rightarrow> streamRef w
      | Inr s \<Rightarrow> if video_el w \<noteq> None \<and> mediaDevices w then Some s else streamRef w)"
  by (auto simp: startCamera_def camera_catch_def Let_def split: option.splits sum.splits)

subsection \<open>Timers and requests in the effect list\<close>

lemma timeouts_append [simp]: "timeouts (xs @ ys) = timeouts xs @ timeouts ys"
  by (simp add: timeouts_def)

lemma timeouts_simps [simp]:
  "timeouts [] = []"
  "timeouts (SetTimeout d u # es) = (d, u) # timeouts es"
  "timeouts (Fetch url body # es) = timeouts es"
  "timeouts (ConsoleError a # es) = timeouts es"
  "timeouts (TrackEnded t # es) = timeouts es"
  by (simp_all add: timeouts_def)

lemma timeouts_TrackEnded [simp]: "timeouts (map TrackEnded ts) = []"
  by (induction ts) simp_all

lemma requests_append [simp]: "requests (xs @ ys) = requests xs @ requests ys"
  by (simp add: requests_def)

lemma requests_simps [simp]:
  "requests [] = []"
  "requests (Fetch url body # es) = (url, body) # requests es"
  "requests (SetTimeout d u # es) = requests es"
  "requests (ConsoleError a # es) = requests es"
  "requests (TrackEnded t # es) = requests es"
  by (simp_all add: requests_def)

lemma requests_TrackEnded [simp]: "requests (map TrackEnded ts) = []"
  by (induction ts) simp_all

subsection \<open>The paths through a submit flow\<close>

lemma rejected_object:
  "rejected resp (JObject kvs) = Inr (\<not> ok resp \<or> \<not> truthy (map_of (rev kvs) ''ok''))"
  by (simp add: rejected_def)

lemma register_try_accepted:
  "ok resp \<Longrightarrow> json_body resp = Inr (JObject kvs) \<Longrightarrow> truthy (map_of (rev kvs) ''ok'') \<Longrightarrow>
     register_try w (Inr resp) =
       Inr (setTimeout_redirect 1200 ''/elections''
             (stopCamera (set_status (check_mark @ '' Registration successful! Redirecting...'') w)))"
  by (simp add: register_try_def rejected_object)

lemma verify_try_accepted:
  "ok resp \<Longrightarrow> json_body resp = Inr (JObject kvs) \<Longrightarrow> truthy (map_of (rev kvs) ''ok'') \<Longrightarrow>
     verify_try w (Inr resp) =
       Inr (stopCamera (set_status (check_mark @ '' Face verified successfully!'') w))"
  by (simp add: verify_try_def rejected_object)

lemma login_try_accepted:
  "ok resp \<Longrightarrow> json_body resp = Inr (JObject kvs) \<Longrightarrow> truthy (map_of (rev kvs) ''ok'') \<Longrightarrow>
     login_try w (Inr resp) =
       Inr (setTimeout_redirect 1000 ''/elections''
             (stopCamera (set_status (check_mark @ '' Login successful! Redirecting...'') w)))"
  by (simp add: login_try_def rejected_object)

lemma captureAndRegister_sent:
  "captureImageBase64 w = (w1, Some uri) \<Longrightarrow> uri \<noteq> [] \<Longrightarrow>
     captureAndRegister w fetched =
       (let w3 = emit (Fetch ''/api/register-face'' (image_body (Some uri)))
                   (set_status ''Uploading face for registration...'' w1)
        in case register_try w3 fetched of
             Inr w4 \<Rightarrow> w4
           | Inl err \<Rightarrow>
               set_status (cross_mark @ '' Server error during registration.'')
                 (console_error (ErrObj err) w3))"
  by (simp add: captureAndRegister_def no_image_def Let_def)

lemma captureAndVerifyVote_sent:
  "captureImageBase64 w = (w1, Some uri) \<Longrightarrow> uri \<noteq> [] \<Longrightarrow>
     captureAndVerifyVote w fetched =
       (let w3 = emit (Fetch ''/api/vote-face-verify'' (image_body (Some uri)))
                   (set_status ''Verifying face...'' w1)
        in case verify_try w3 fetched of
             Inr w4 \<Rightarrow> w4
           | Inl err \<Rightarrow>
               set_status (cross_mark @ '' Server error during verification.'')
                 (console_error (ErrObj err) w3))"
  by (simp add: captureAndVerifyVote_def no_image_def Let_def)

lemma captureAndLogin_sent:
  "captureImageBase64 w = (w1, Some uri) \<Longrightarrow> uri \<noteq> [] \<Longrightarrow>
     captureAndLogin w fetched =
       (let w3 = emit (Fetch ''/api/login-face-verify'' (image_body (Some uri)))
                   (set_status ''Verifying face for login...'' w1)
        in case login_try w3 fetched of
             Inr w4 \<Rightarrow> w4
           | Inl err \<Rightarrow>
               set_status (cross_mark @ '' Server error during login.'')
                 (console_error (ErrObj err) w3))"
  by (simp add: captureAndLogin_def no_image_def Let_def)

text \<open>Stopping the camera and then setting the timer: the tracks end first.\<close>

lemma stop_then_timer:
  assumes sr: "streamRef wm = streamRef w" and ts: "track_state wm = track_state w"
  shows "\<exists>ended.
      effects (setTimeout_redirect d u (stopCamera wm))
        = effects wm @ map TrackEnded ended @ [SetTimeout d u]
      \<and> set ended = {t. \<exists>s. streamRef w = Some s \<and> t \<in> set (getTracks s) \<and> track_state w t = Live}
      \<and> distinct ended"
proof -
  from effects_stopCamera [of wm] obtain ended where
    "effects (stopCamera wm) = effects wm @ map TrackEnded ended"
    "set ended = {t. \<exists>s. streamRef wm = Some s \<and> t \<in> set (getTracks s) \<and> track_state wm t = Live}"
    "distinct ended"
    by blast
  then show ?thesis using sr ts by auto
qed

lemma show_rejection_text:
  "status_el w = Some old \<Longrightarrow>
     show_rejection (JObject kvs) fallback w =
       Inr (w\<lparr>status_el :=
              Some (cross_mark @ '' '' @
                (if truthy (map_of (rev kvs) ''error'')
                 then val_to_string (map_of (rev kvs) ''error'') else fallback))\<rparr>)"
  by (simp add: show_rejection_def)

lemma requests_stopCamera [simp]: "requests (effects (stopCamera w)) = requests (effects w)"
  using effects_stopCamera [of w] by auto

lemma register_try_requests:
  "register_try w f = Inr w' \<Longrightarrow> requests (effects w') = requests (effects w)"
  by (auto simp: register_try_def dest: show_rejection_frame split: sum.splits bool.splits)

lemma verify_try_requests:
  "verify_try w f = Inr w' \<Longrightarrow> requests (effects w') = requests (effects w)"
  by (auto simp: verify_try_def dest: show_rejection_frame split: sum.splits bool.splits)

lemma login_try_requests:
  "login_try w f = Inr w' \<Longrightarrow> requests (effects w') = requests (effects w)"
  by (auto simp: login_try_def dest: show_rejection_frame split: sum.splits bool.splits)

lemma show_rejection_no_status: "status_el w = None \<Longrightarrow> show_rejection data fb w = Inr w"
  by (simp add: show_rejection_def)

lemma register_try_no_status:
  "register_try w f = Inr w' \<Longrightarrow> status_el w = None \<Longrightarrow> status_el w' = None"
  by (auto simp: register_try_def show_rejection_no_status split: sum.splits bool.splits)

lemma verify_try_no_status:
  "verify_try w f = Inr w' \<Longrightarrow> status_el w = None \<Longrightarrow> status_el w' = None"
  by (auto simp: verify_try_def show_rejection_no_status split: sum.splits bool.splits)

lemma login_try_no_status:
  "login_try w f = Inr w' \<Longrightarrow> status_el w = None \<Longrightarrow> status_el w' = None"
  by (auto simp: login_try_def show_rejection_no_status split: sum.splits bool.splits)

lemma captureAndRegister_requests:
  assumes "\<not> no_image (snd (captureImageBase64 w))"
  shows "\<exists>body. requests (effects (captureAndRegister w f)) = requests (effects w) @ [(''/api/register-face'', body)]"
proof -
  from image_capture [OF assms] obtain w1 uri where
    c: "captureImageBase64 w = (w1, Some uri)" "uri \<noteq> []" "w1 = fst (captureImageBase64 w)"
    by blast
  have "effects w1 = effects w" using c(3) by simp
  then have "requests (effects (captureAndRegister w f))
      = requests (effects w) @ [(''/api/register-face'', image_body (Some uri))]"
    by (auto simp: captureAndRegister_sent [OF c(1,2)] Let_def dest!: register_try_requests
        split: sum.splits)
  then show ?thesis by blast
qed

lemma captureAndVerifyVote_requests:
  assumes "\<not> no_image (snd (captureImageBase64 w))"
  shows "\<exists>body. requests (effects (captureAndVerifyVote w f)) = requests (effects w) @ [(''/api/vote-face-verify'', body)]"
proof -
  from image_capture [OF assms] obtain w1 uri where
    c: "captureImageBase64 w = (w1, Some uri)" "uri \<noteq> []" "w1 = fst (captureImageBase64 w)"
    by blast
  have "effects w1 = effects w" using c(3) by simp
  then have "requests (effects (captureAndVerifyVote w f))
      = requests (effects w) @ [(''/api/vote-face-verify'', image_body (Some uri))]"
    by (auto simp: captureAndVerifyVote_sent [OF c(1,2)] Let_def dest!: verify_try_requests
        split: sum.splits)
  then show ?thesis by blast
qed

lemma captureAndLogin_requests:
  assumes "\<not> no_image (snd (captureImageBase64 w))"
  shows "\<exists>body. requests (effects (captureAndLogin w f)) = requests (effects w) @ [(''/api/login-face-verify'', body)]"
proof -
  from image_capture [OF assms] obtain w1 uri where
    c: "captureImageBase64 w = (w1, Some uri)" "uri \<noteq> []" "w1 = fst (captureImageBase64 w)"
    by blast
  have "effects w1 = effects w" using c(3) by simp
  then have "requests (effects (captureAndLogin w f))
      = requests (effects w) @ [(''/api/login-face-verify'', image_body (Some uri))]"
    by (auto simp: captureAndLogin_sent [OF c(1,2)] Let_def dest!: login_try_requests
        split: sum.splits)
  then show ?thesis by blast
qed

lemma status_None_captureAndRegister:
  "status_el w = None \<Longrightarrow> status_el (captureAndRegister w f) = None"
proof (cases "captureImageBase64 w")
  case (Pair w1 img)
  assume n: "status_el w = None"
  from Pair have "status_el w1 = status_el w"
    using captureImageBase64_fields(3) [of w] by simp
  with n Pair show ?thesis
    by (auto simp: captureAndRegister_def Let_def set_status_def emit_def console_error_def
        dest!: register_try_no_status split: sum.splits)
qed

lemma status_None_captureAndVerifyVote:
  "status_el w = None \<Longrightarrow> status_el (captureAndVerifyVote w f) = None"
proof (cases "captureImageBase64 w")
  case (Pair w1 img)
  assume n: "status_el w = None"
  from Pair have "status_el w1 = status_el w"
    using captureImageBase64_fields(3) [of w] by simp
  with n Pair show ?thesis
    by (auto simp: captureAndVerifyVote_def Let_def set_status_def emit_def console_error_def
        dest!: verify_try_no_status split: sum.splits)
qed

lemma status_None_captureAndLogin:
  "status_el w = None \<Longrightarrow> status_el (captureAndLogin w f) = None"
proof (cases "captureImageBase64 w")
  case (Pair w1 img)
  assume n: "status_el w = None"
  from Pair have "status_el w1 = status_el w"
    using captureImageBase64_fields(3) [of w] by simp
  with n Pair show ?thesis
    by (auto simp: captureAndLogin_def Let_def set_status_def emit_def console_error_def
        dest!: login_try_no_status split: sum.splits)
qed

lemma status_None_startCamera:
  "status_el w = None \<Longrightarrow> status_el (startCamera w a p) = None"
  by (auto simp: startCamera_def camera_catch_def Let_def split: option.splits sum.splits)

lemma capture_without_element:
  "video_el w = None \<or> canvas_el w = None \<Longrightarrow> captureImageBase64 w = (w, None)"
  by (auto simp: captureImageBase64_def split: option.splits)

text \<open>The definitions a run on a sample page unfolds.\<close>

lemmas run_defs =
  captureAndRegister_def captureAndVerifyVote_def captureAndLogin_def
  register_try_def verify_try_def login_try_def rejected_def show_rejection_def
  captureImageBase64_def no_image_def toDataURL_def image_body_def
  set_status_def emit_def console_error_def setTimeout_redirect_def
  stopCamera_def track_stop_def startCamera_def camera_catch_def
  page_live_def page_idle_def camera_stream_def val_to_string_def Let_def

subsection \<open>Stopping the camera\<close>

text \<open>
  Claim C3. \<open>stopCamera\<close> is idempotent: a second call in a row ends in the world the
  first call left, so it adds no effect (no track ends a second time) and changes no
  state; with no stream in \<open>streamRef\<close> a call changes nothing at all. The function has no
  failing branch: it returns a world on every input. The second call does run
  \<open>track.stop()\<close> on every track again, as \<open>streamRef\<close> still holds the stream; each of
  those calls meets a track that has ended.
\<close>

theorem stopCamera_idempotent:
  "stopCamera (stopCamera w) = stopCamera w
   \<and> effects (stopCamera (stopCamera w)) = effects (stopCamera w)
   \<and> (streamRef w = None \<longrightarrow> stopCamera w = w)"
proof -
  have twice: "stopCamera (stopCamera w) = stopCamera w"
  proof (cases "streamRef w")
    case None
    then show ?thesis by (simp add: stopCamera_def)
  next
    case (Some s)
    have "\<forall>t\<in>set (getTracks s). track_state (fold track_stop (getTracks s) w) t = Ended"
      by (simp add: track_state_fold_track_stop)
    then have "fold track_stop (getTracks s) (fold track_stop (getTracks s) w)
                 = fold track_stop (getTracks s) w"
      by (rule fold_track_stop_all_ended)
    with Some show ?thesis by (simp add: stopCamera_def)
  qed
  moreover have "streamRef w = None \<longrightarrow> stopCamera w = w"
    by (simp add: stopCamera_def)
  ultimately show ?thesis by simp
qed

theorem stopCamera_idempotent_witness:
  "effects (stopCamera page_live) = [TrackEnded 7]
   \<and> effects (stopCamera (stopCamera page_live)) = [TrackEnded 7]
   \<and> stopCamera (stopCamera page_live) = stopCamera page_live
   \<and> streamRef page_idle = None \<and> stopCamera page_idle = page_idle"
proof -
  have one: "effects (stopCamera page_live) = [TrackEnded 7]"
    by (simp add: stopCamera_def track_stop_def emit_def page_live_def page_idle_def
        camera_stream_def)
  have none: "streamRef page_idle = None"
    by (simp add: page_idle_def)
  from one none stopCamera_idempotent [of page_live] stopCamera_idempotent [of page_idle]
  show ?thesis by simp
qed

text \<open>
  Claim C10. \<open>streamRef\<close> is written by \<open>startCamera\<close> only. \<open>stopCamera\<close> ends the
  tracks of the stream it holds and leaves the slot as it was, so the slot still holds the
  stopped stream; taking a picture, the three submit flows (whatever the server answers)
  and the redirect timer leave it alone too. \<open>startCamera\<close> writes it exactly when the
  video element is there, the capture interface is there and the camera request resolves.
\<close>

theorem streamRef_only_written_by_startCamera:
  "streamRef (stopCamera w) = streamRef w
   \<and> (\<forall>s t. streamRef w = Some s \<and> t \<in> set (getTracks s) \<longrightarrow> track_state (stopCamera w) t = Ended)
   \<and> streamRef (fst (captureImageBase64 w)) = streamRef w
   \<and> streamRef (captureAndRegister w fetched) = streamRef w
   \<and> streamRef (captureAndVerifyVote w fetched) = streamRef w
   \<and> streamRef (captureAndLogin w fetched) = streamRef w
   \<and> streamRef (timer_fires url w) = streamRef w
   \<and> streamRef (startCamera w acquired played) =
       (case acquired of
          Inl err \<Rightarrow> streamRef w
        | Inr s \<Rightarrow> if video_el w \<noteq> None \<and> mediaDevices w then Some s else streamRef w)"
  by (simp add: streamRef_captureAndRegister streamRef_captureAndVerifyVote
      streamRef_captureAndLogin streamRef_startCamera track_state_stopCamera timer_fires_def)

theorem streamRef_only_written_by_startCamera_witness:
  "streamRef page_live = Some camera_stream \<and> 7 \<in> set (getTracks camera_stream)
   \<and> streamRef (stopCamera page_live) = Some camera_stream
   \<and> track_state (stopCamera page_live) 7 = Ended
   \<and> streamRef (captureAndLogin page_live (Inr \<lparr>ok = True, json_body = Inr (JObject [(''ok'', JBool True)])\<rparr>))
       = Some camera_stream
   \<and> streamRef (startCamera (stopCamera page_live) (Inr \<lparr>stream_id = 2, getTracks = [8]\<rparr>) (Inr ()))
       = Some \<lparr>stream_id = 2, getTracks = [8]\<rparr>"
  using
    streamRef_only_written_by_startCamera [of page_live
      "Inr \<lparr>ok = True, json_body = Inr (JObject [(''ok'', JBool True)])\<rparr>" "''/elections''"
      "Inl (DOMException ''denied'')" "Inr ()"]
    streamRef_only_written_by_startCamera [of "stopCamera page_live"
      "Inl (TypeError ''offline'')" "''/elections''" "Inr \<lparr>stream_id = 2, getTracks = [8]\<rparr>" "Inr ()"]
  by (simp add: page_live_def page_idle_def camera_stream_def)

subsection \<open>Taking a picture\<close>

text \<open>
  Claim C8. \<open>captureImageBase64\<close> returns \<open>null\<close>, and changes nothing, whenever the video
  reports a width or a height of zero (so whenever it reports 0 by 0), in every world it
  is called in; and when it returns a picture, the video and the canvas are on the page and
  the video reports a width and a height that are both not zero.
\<close>

theorem capture_needs_dimensions:
  "(video_el w = Some v \<and> (videoWidth v = 0 \<or> videoHeight v = 0) \<longrightarrow> captureImageBase64 w = (w, None))
   \<and> (snd (captureImageBase64 w) = Some uri \<longrightarrow>
        (\<exists>v c. video_el w = Some v \<and> canvas_el w = Some c \<and> 0 < videoWidth v \<and> 0 < videoHeight v))"
  by (auto simp: captureImageBase64_def Let_def split: option.splits if_splits)

theorem capture_needs_dimensions_witness:
  "video_el page_idle = Some \<lparr>srcObject = None, videoWidth = 0, videoHeight = 0, picture = []\<rparr>
   \<and> captureImageBase64 page_idle = (page_idle, None)
   \<and> snd (captureImageBase64 page_live) = Some ''data:image/jpeg;base64,/9j/4AAQSkZJRg==''
   \<and> (\<exists>v c. video_el page_live = Some v \<and> canvas_el page_live = Some c \<and> 0 < videoWidth v \<and> 0 < videoHeight v)"
proof -
  have a: "video_el page_idle = Some \<lparr>srcObject = None, videoWidth = 0, videoHeight = 0, picture = []\<rparr>"
    by (simp add: page_idle_def)
  have b: "snd (captureImageBase64 page_live) = Some ''data:image/jpeg;base64,/9j/4AAQSkZJRg==''"
    by (simp add: captureImageBase64_def page_live_def page_idle_def toDataURL_def)
  from a b capture_needs_dimensions [of page_idle "\<lparr>srcObject = None, videoWidth = 0, videoHeight = 0, picture = []\<rparr>"]
    capture_needs_dimensions [of page_live _ "''data:image/jpeg;base64,/9j/4AAQSkZJRg==''"]
  show ?thesis by simp
qed

subsection \<open>The submit flows\<close>

text \<open>
  Claim C1. When \<open>captureImageBase64\<close> gives no picture (\<open>null\<close> or the empty string),
  each of \<open>captureAndRegister\<close>, \<open>captureAndVerifyVote\<close> and \<open>captureAndLogin\<close> adds nothing
  to the effect list, so it sends no network request, whatever the network would have
  answered; it sets the status text to the warning (where the page has a status element)
  and does nothing else.
\<close>

theorem submit_without_image:
  assumes "no_image (snd (captureImageBase64 w))"
  shows "effects (captureAndRegister w fetched) = effects w
    \<and> requests (effects (captureAndRegister w fetched)) = requests (effects w)
    \<and> captureAndRegister w fetched = set_status (warning_sign @ '' Please start camera first.'') w
    \<and> effects (captureAndVerifyVote w fetched) = effects w
    \<and> requests (effects (captureAndVerifyVote w fetched)) = requests (effects w)
    \<and> captureAndVerifyVote w fetched = set_status (warning_sign @ '' Please start camera first.'') w
    \<and> effects (captureAndLogin w fetched) = effects w
    \<and> requests (effects (captureAndLogin w fetched)) = requests (effects w)
    \<and> captureAndLogin w fetched = set_status (warning_sign @ '' Please start camera first.'') w
    \<and> (status_el w \<noteq> None \<longrightarrow>
          status_el (captureAndRegister w fetched) = Some (warning_sign @ '' Please start camera first.'')
          \<and> status_el (captureAndVerifyVote w fetched) = Some (warning_sign @ '' Please start camera first.'')
          \<and> status_el (captureAndLogin w fetched) = Some (warning_sign @ '' Please start camera first.''))"
proof -
  from assms have c: "captureImageBase64 w = (w, None)" by (rule no_image_capture)
  have r: "captureAndRegister w fetched = set_status (warning_sign @ '' Please start camera first.'') w"
    by (simp add: captureAndRegister_def c no_image_def)
  have v: "captureAndVerifyVote w fetched = set_status (warning_sign @ '' Please start camera first.'') w"
    by (simp add: captureAndVerifyVote_def c no_image_def)
  have l: "captureAndLogin w fetched = set_status (warning_sign @ '' Please start camera first.'') w"
    by (simp add: captureAndLogin_def c no_image_def)
  show ?thesis
    by (simp only: r v l set_status_fields status_el_set_status) (simp split: option.split)
qed

theorem submit_without_image_witness:
  "no_image (snd (captureImageBase64 page_idle))
   \<and> status_el page_idle \<noteq> None
   \<and> effects (captureAndRegister page_idle (Inr \<lparr>ok = True, json_body = Inr (JObject [(''ok'', JBool True)])\<rparr>)) = []
   \<and> status_el (captureAndRegister page_idle (Inr \<lparr>ok = True, json_body = Inr (JObject [(''ok'', JBool True)])\<rparr>))
       = Some (warning_sign @ '' Please start camera first.'')"
proof -
  have h: "no_image (snd (captureImageBase64 page_idle))"
    by (simp add: captureImageBase64_def page_idle_def no_image_def)
  have s: "status_el page_idle = Some []"
    by (simp add: page_idle_def)
  have e: "effects page_idle = []"
    by (simp add: page_idle_def)
  from h s e submit_without_image [OF h, of "Inr \<lparr>ok = True, json_body = Inr (JObject [(''ok'', JBool True)])\<rparr>"]
  show ?thesis by simp
qed

text \<open>
  Claim C2. When \<open>captureAndRegister\<close> or \<open>captureAndLogin\<close> has sent a picture and the
  server accepts it (\<open>response.ok\<close>, and a body whose \<open>ok\<close> is true), \<open>stopCamera\<close> runs
  before the redirect is scheduled: the flow ends in the world that setting the timer makes
  of the world \<open>stopCamera\<close> returned, in which the flow had set no timer yet; in the effect
  list, after the request, every track of the held stream that was live ends, and only then
  comes the timer, last. So the tracks of the held stream have ended when the timer is
  pending, and still when it fires.
\<close>

theorem stop_before_redirect:
  assumes img: "\<not> no_image (snd (captureImageBase64 w))"
    and acc: "ok resp" "json_body resp = Inr (JObject kvs)" "truthy (map_of (rev kvs) ''ok'')"
  shows "(\<exists>body ended wm.
           effects (captureAndRegister w (Inr resp))
             = effects w @ [Fetch ''/api/register-face'' body] @ map TrackEnded ended
                 @ [SetTimeout 1200 ''/elections'']
           \<and> set ended = {t. \<exists>s. streamRef w = Some s \<and> t \<in> set (getTracks s) \<and> track_state w t = Live}
           \<and> captureAndRegister w (Inr resp) = setTimeout_redirect 1200 ''/elections'' (stopCamera wm)
           \<and> timeouts (effects (stopCamera wm)) = timeouts (effects w))
       \<and> (\<exists>body ended wm.
           effects (captureAndLogin w (Inr resp))
             = effects w @ [Fetch ''/api/login-face-verify'' body] @ map TrackEnded ended
                 @ [SetTimeout 1000 ''/elections'']
           \<and> set ended = {t. \<exists>s. streamRef w = Some s \<and> t \<in> set (getTracks s) \<and> track_state w t = Live}
           \<and> captureAndLogin w (Inr resp) = setTimeout_redirect 1000 ''/elections'' (stopCamera wm)
           \<and> timeouts (effects (stopCamera wm)) = timeouts (effects w))
       \<and> (\<forall>s t. streamRef w = Some s \<and> t \<in> set (getTracks s) \<longrightarrow>
             track_state (captureAndRegister w (Inr resp)) t = Ended
             \<and> track_state (timer_fires ''/elections'' (captureAndRegister w (Inr resp))) t = Ended
             \<and> track_state (captureAndLogin w (Inr resp)) t = Ended
             \<and> track_state (timer_fires ''/elections'' (captureAndLogin w (Inr resp))) t = Ended)"
proof -
  from image_capture [OF img] obtain w1 uri where
    c: "captureImageBase64 w = (w1, Some uri)" "uri \<noteq> []" "w1 = fst (captureImageBase64 w)"
    by blast
  have w1: "streamRef w1 = streamRef w" "track_state w1 = track_state w" "effects w1 = effects w"
    using c(3) by simp_all
  let ?r = "set_status (check_mark @ '' Registration successful! Redirecting...'')
              (emit (Fetch ''/api/register-face'' (image_body (Some uri)))
                (set_status ''Uploading face for registration...'' w1))"
  let ?l = "set_status (check_mark @ '' Login successful! Redirecting...'')
              (emit (Fetch ''/api/login-face-verify'' (image_body (Some uri)))
                (set_status ''Verifying face for login...'' w1))"
  have r: "captureAndRegister w (Inr resp) = setTimeout_redirect 1200 ''/elections'' (stopCamera ?r)"
    by (simp add: captureAndRegister_sent [OF c(1,2)] register_try_accepted [OF acc])
  have l: "captureAndLogin w (Inr resp) = setTimeout_redirect 1000 ''/elections'' (stopCamera ?l)"
    by (simp add: captureAndLogin_sent [OF c(1,2)] login_try_accepted [OF acc])
  have rm: "streamRef ?r = streamRef w" "track_state ?r = track_state w"
    "effects ?r = effects w @ [Fetch ''/api/register-face'' (image_body (Some uri))]"
    using w1 by simp_all
  have lm: "streamRef ?l = streamRef w" "track_state ?l = track_state w"
    "effects ?l = effects w @ [Fetch ''/api/login-face-verify'' (image_body (Some uri))]"
    using w1 by simp_all
  from stop_then_timer [OF rm(1,2), of 1200 "''/elections''"] obtain er where
    er: "effects (setTimeout_redirect 1200 ''/elections'' (stopCamera ?r))
           = effects ?r @ map TrackEnded er @ [SetTimeout 1200 ''/elections'']"
        "set er = {t. \<exists>s. streamRef w = Some s \<and> t \<in> set (getTracks s) \<and> track_state w t = Live}"
    by blast
  from stop_then_timer [OF lm(1,2), of 1000 "''/elections''"] obtain el where
    el: "effects (setTimeout_redirect 1000 ''/elections'' (stopCamera ?l))
           = effects ?l @ map TrackEnded el @ [SetTimeout 1000 ''/elections'']"
        "set el = {t. \<exists>s. streamRef w = Some s \<and> t \<in> set (getTracks s) \<and> track_state w t = Live}"
    by blast
  have tr: "timeouts (effects (stopCamera ?r)) = timeouts (effects w)"
    using er(1) rm(3) by simp
  have tl: "timeouts (effects (stopCamera ?l)) = timeouts (effects w)"
    using el(1) lm(3) by simp
  have A: "\<exists>body ended wm.
           effects (captureAndRegister w (Inr resp))
             = effects w @ [Fetch ''/api/register-face'' body] @ map TrackEnded ended
                 @ [SetTimeout 1200 ''/elections'']
           \<and> set ended = {t. \<exists>s. streamRef w = Some s \<and> t \<in> set (getTracks s) \<and> track_state w t = Live}
           \<and> captureAndRegister w (Inr resp) = setTimeout_redirect 1200 ''/elections'' (stopCamera wm)
           \<and> timeouts (effects (stopCamera wm)) = timeouts (effects w)"
    using r er rm(3) tr by (intro exI [of _ "image_body (Some uri)"] exI [of _ er] exI [of _ ?r]) simp
  have B: "\<exists>body ended wm.
           effects (captureAndLogin w (Inr resp))
             = effects w @ [Fetch ''/api/login-face-verify'' body] @ map TrackEnded ended
                 @ [SetTimeout 1000 ''/elections'']
           \<and> set ended = {t. \<exists>s. streamRef w = Some s \<and> t \<in> set (getTracks s) \<and> track_state w t = Live}
           \<and> captureAndLogin w (Inr resp) = setTimeout_redirect 1000 ''/elections'' (stopCamera wm)
           \<and> timeouts (effects (stopCamera wm)) = timeouts (effects w)"
    using l el lm(3) tl by (intro exI [of _ "image_body (Some uri)"] exI [of _ el] exI [of _ ?l]) simp
  have C: "\<forall>s t. streamRef w = Some s \<and> t \<in> set (getTracks s) \<longrightarrow>
             track_state (captureAndRegister w (Inr resp)) t = Ended
             \<and> track_state (timer_fires ''/elections'' (captureAndRegister w (Inr resp))) t = Ended
             \<and> track_state (captureAndLogin w (Inr resp)) t = Ended
             \<and> track_state (timer_fires ''/elections'' (captureAndLogin w (Inr resp))) t = Ended"
    by (simp add: r l timer_fires_def track_state_stopCamera w1)
  from A B C show ?thesis by blast
qed

theorem stop_before_redirect_witness:
  "\<not> no_image (snd (captureImageBase64 page_live))
   \<and> effects (captureAndRegister page_live (Inr \<lparr>ok = True, json_body = Inr (JObject [(''ok'', JBool True)])\<rparr>))
       = [Fetch ''/api/register-face'' (JObject [(''image'', JString ''data:image/jpeg;base64,/9j/4AAQSkZJRg=='')]),
          TrackEnded 7, SetTimeout 1200 ''/elections'']
   \<and> effects (captureAndLogin page_live (Inr \<lparr>ok = True, json_body = Inr (JObject [(''ok'', JBool True)])\<rparr>))
       = [Fetch ''/api/login-face-verify'' (JObject [(''image'', JString ''data:image/jpeg;base64,/9j/4AAQSkZJRg=='')]),
          TrackEnded 7, SetTimeout 1000 ''/elections'']
   \<and> streamRef page_live = Some camera_stream \<and> 7 \<in> set (getTracks camera_stream)
   \<and> track_state (captureAndRegister page_live (Inr \<lparr>ok = True, json_body = Inr (JObject [(''ok'', JBool True)])\<rparr>)) 7 = Ended"
proof -
  let ?resp = "\<lparr>ok = True, json_body = Inr (JObject [(''ok'', JBool True)])\<rparr>"
  have h: "\<not> no_image (snd (captureImageBase64 page_live))"
    by (simp add: run_defs)
  have a: "ok ?resp" "json_body ?resp = Inr (JObject [(''ok'', JBool True)])"
    "truthy (map_of (rev [(''ok'', JBool True)]) ''ok'')"
    by simp_all
  have r: "effects (captureAndRegister page_live (Inr ?resp))
       = [Fetch ''/api/register-face'' (JObject [(''image'', JString ''data:image/jpeg;base64,/9j/4AAQSkZJRg=='')]),
          TrackEnded 7, SetTimeout 1200 ''/elections'']"
    by (simp add: run_defs)
  have l: "effects (captureAndLogin page_live (Inr ?resp))
       = [Fetch ''/api/login-face-verify'' (JObject [(''image'', JString ''data:image/jpeg;base64,/9j/4AAQSkZJRg=='')]),
          TrackEnded 7, SetTimeout 1000 ''/elections'']"
    by (simp add: run_defs)
  have s: "streamRef page_live = Some camera_stream" "7 \<in> set (getTracks camera_stream)"
    by (simp_all add: run_defs)
  from stop_before_redirect [OF h a] s
  have "track_state (captureAndRegister page_live (Inr ?resp)) 7 = Ended"
    by blast
  with h r l s show ?thesis by simp
qed

text \<open>
  Claim C7. On an accepted response \<open>captureAndRegister\<close> sets one timer, of 1200 ms, and
  \<open>captureAndLogin\<close> one of 1000 ms, both to go to \<open>/elections\<close>; \<open>captureAndVerifyVote\<close>
  sets the success text (where the page has a status element), stops the held stream and
  sets no timer, and the page's address stays.
\<close>

theorem redirect_delays:
  assumes img: "\<not> no_image (snd (captureImageBase64 w))"
    and acc: "ok resp" "json_body resp = Inr (JObject kvs)" "truthy (map_of (rev kvs) ''ok'')"
  shows "timeouts (effects (captureAndRegister w (Inr resp))) = timeouts (effects w) @ [(1200, ''/elections'')]
    \<and> timeouts (effects (captureAndLogin w (Inr resp))) = timeouts (effects w) @ [(1000, ''/elections'')]
    \<and> timeouts (effects (captureAndVerifyVote w (Inr resp))) = timeouts (effects w)
    \<and> location_href (captureAndVerifyVote w (Inr resp)) = location_href w
    \<and> (status_el w \<noteq> None \<longrightarrow>
          status_el (captureAndVerifyVote w (Inr resp)) = Some (check_mark @ '' Face verified successfully!''))
    \<and> (\<forall>s t. streamRef w = Some s \<and> t \<in> set (getTracks s) \<longrightarrow>
          track_state (captureAndVerifyVote w (Inr resp)) t = Ended)
    \<and> location_href (timer_fires ''/elections'' (captureAndRegister w (Inr resp))) = ''/elections''
    \<and> location_href (timer_fires ''/elections'' (captureAndLogin w (Inr resp))) = ''/elections''"
proof -
  from image_capture [OF img] obtain w1 uri where
    c: "captureImageBase64 w = (w1, Some uri)" "uri \<noteq> []" "w1 = fst (captureImageBase64 w)"
    by blast
  have w1: "streamRef w1 = streamRef w" "track_state w1 = track_state w" "effects w1 = effects w"
    "status_el w1 = status_el w" "location_href w1 = location_href w"
    using c(3) by simp_all
  let ?r = "set_status (check_mark @ '' Registration successful! Redirecting...'')
              (emit (Fetch ''/api/register-face'' (image_body (Some uri)))
                (set_status ''Uploading face for registration...'' w1))"
  let ?l = "set_status (check_mark @ '' Login successful! Redirecting...'')
              (emit (Fetch ''/api/login-face-verify'' (image_body (Some uri)))
                (set_status ''Verifying face for login...'' w1))"
  let ?v = "set_status (check_mark @ '' Face verified successfully!'')
              (emit (Fetch ''/api/vote-face-verify'' (image_body (Some uri)))
                (set_status ''Verifying face...'' w1))"
  have r: "captureAndRegister w (Inr resp) = setTimeout_redirect 1200 ''/elections'' (stopCamera ?r)"
    by (simp add: captureAndRegister_sent [OF c(1,2)] register_try_accepted [OF acc])
  have l: "captureAndLogin w (Inr resp) = setTimeout_redirect 1000 ''/elections'' (stopCamera ?l)"
    by (simp add: captureAndLogin_sent [OF c(1,2)] login_try_accepted [OF acc])
  have v: "captureAndVerifyVote w (Inr resp) = stopCamera ?v"
    by (simp add: captureAndVerifyVote_sent [OF c(1,2)] verify_try_accepted [OF acc])
  from effects_stopCamera [of ?r] obtain er where
    er: "effects (stopCamera ?r) = effects ?r @ map TrackEnded er" by blast
  from effects_stopCamera [of ?l] obtain el where
    el: "effects (stopCamera ?l) = effects ?l @ map TrackEnded el" by blast
  from effects_stopCamera [of ?v] obtain ev where
    ev: "effects (stopCamera ?v) = effects ?v @ map TrackEnded ev" by blast
  have 1: "timeouts (effects (captureAndRegister w (Inr resp))) = timeouts (effects w) @ [(1200, ''/elections'')]"
    by (simp add: r er w1)
  have 2: "timeouts (effects (captureAndLogin w (Inr resp))) = timeouts (effects w) @ [(1000, ''/elections'')]"
    by (simp add: l el w1)
  have 3: "timeouts (effects (captureAndVerifyVote w (Inr resp))) = timeouts (effects w)"
    by (simp add: v ev w1)
  have 4: "location_href (captureAndVerifyVote w (Inr resp)) = location_href w"
    by (simp add: v w1)
  have 5: "status_el w \<noteq> None \<longrightarrow>
          status_el (captureAndVerifyVote w (Inr resp)) = Some (check_mark @ '' Face verified successfully!'')"
    by (auto simp: v w1 split: option.splits)
  have 6: "\<forall>s t. streamRef w = Some s \<and> t \<in> set (getTracks s) \<longrightarrow>
          track_state (captureAndVerifyVote w (Inr resp)) t = Ended"
    by (simp add: v track_state_stopCamera w1)
  have 7: "location_href (timer_fires ''/elections'' (captureAndRegister w (Inr resp))) = ''/elections''"
    "location_href (timer_fires ''/elections'' (captureAndLogin w (Inr resp))) = ''/elections''"
    by (simp_all add: timer_fires_def)
  from 1 2 3 4 5 6 7 show ?thesis by blast
qed

theorem redirect_delays_witness:
  "\<not> no_image (snd (captureImageBase64 page_live))
   \<and> status_el page_live \<noteq> None
   \<and> streamRef page_live = Some camera_stream \<and> 7 \<in> set (getTracks camera_stream)
   \<and> timeouts (effects (captureAndRegister page_live (Inr \<lparr>ok = True, json_body = Inr (JObject [(''ok'', JBool True)])\<rparr>)))
       = [(1200, ''/elections'')]
   \<and> timeouts (effects (captureAndLogin page_live (Inr \<lparr>ok = True, json_body = Inr (JObject [(''ok'', JBool True)])\<rparr>)))
       = [(1000, ''/elections'')]
   \<and> timeouts (effects (captureAndVerifyVote page_live (Inr \<lparr>ok = True, json_body = Inr (JObject [(''ok'', JBool True)])\<rparr>)))
       = []
   \<and> status_el (captureAndVerifyVote page_live (Inr \<lparr>ok = True, json_body = Inr (JObject [(''ok'', JBool True)])\<rparr>))
       = Some (check_mark @ '' Face verified successfully!'')
   \<and> track_state (captureAndVerifyVote page_live (Inr \<lparr>ok = True, json_body = Inr (JObject [(''ok'', JBool True)])\<rparr>)) 7
       = Ended"
proof -
  let ?resp = "\<lparr>ok = True, json_body = Inr (JObject [(''ok'', JBool True)])\<rparr>"
  have h: "\<not> no_image (snd (captureImageBase64 page_live))"
    by (simp add: run_defs)
  have a: "ok ?resp" "json_body ?resp = Inr (JObject [(''ok'', JBool True)])"
    "truthy (map_of (rev [(''ok'', JBool True)]) ''ok'')"
    by simp_all
  have s: "status_el page_live \<noteq> None" "streamRef page_live = Some camera_stream"
    "7 \<in> set (getTracks camera_stream)" "timeouts (effects page_live) = []"
    by (simp_all add: run_defs)
  from redirect_delays [OF h a] s
  have "timeouts (effects (captureAndRegister page_live (Inr ?resp))) = [(1200, ''/elections'')]"
    "timeouts (effects (captureAndLogin page_live (Inr ?resp))) = [(1000, ''/elections'')]"
    "timeouts (effects (captureAndVerifyVote page_live (Inr ?resp))) = []"
    "status_el (captureAndVerifyVote page_live (Inr ?resp)) = Some (check_mark @ '' Face verified successfully!'')"
    "track_state (captureAndVerifyVote page_live (Inr ?resp)) 7 = Ended"
    by simp_all
  with h s show ?thesis by simp
qed

text \<open>
  Claim C5. When the request to \<open>/api/register-face\<close> is answered and the body cannot be
  parsed (\<open>response.json()\<close> rejects, as for an HTTP 500 with an HTML body), the status text
  becomes the generic server-error text (where the page has a status element), the error
  is logged, and the camera keeps running: \<open>streamRef\<close> and the state of every track are
  as before, and no track ends.
\<close>

theorem register_unparsable_body:
  assumes img: "\<not> no_image (snd (captureImageBase64 w))"
    and bad: "json_body resp = Inl err"
  shows "(status_el w \<noteq> None \<longrightarrow>
            status_el (captureAndRegister w (Inr resp))
              = Some (cross_mark @ '' Server error during registration.''))
    \<and> streamRef (captureAndRegister w (Inr resp)) = streamRef w
    \<and> track_state (captureAndRegister w (Inr resp)) = track_state w
    \<and> (\<exists>body. effects (captureAndRegister w (Inr resp))
                 = effects w @ [Fetch ''/api/register-face'' body, ConsoleError (ErrObj err)])"
proof -
  from image_capture [OF img] obtain w1 uri where
    c: "captureImageBase64 w = (w1, Some uri)" "uri \<noteq> []" "w1 = fst (captureImageBase64 w)"
    by blast
  have w1: "streamRef w1 = streamRef w" "track_state w1 = track_state w" "effects w1 = effects w"
    "status_el w1 = status_el w"
    using c(3) by simp_all
  have t: "register_try w3 (Inr resp) = Inl err" for w3
    by (simp add: register_try_def bad)
  have r: "captureAndRegister w (Inr resp) =
      set_status (cross_mark @ '' Server error during registration.'')
        (console_error (ErrObj err)
          (emit (Fetch ''/api/register-face'' (image_body (Some uri)))
            (set_status ''Uploading face for registration...'' w1)))"
    by (simp add: captureAndRegister_sent [OF c(1,2)] t)
  show ?thesis
    by (auto simp: r w1 split: option.splits)
qed

theorem register_unparsable_body_witness:
  "\<not> no_image (snd (captureImageBase64 page_live))
   \<and> status_el page_live \<noteq> None
   \<and> status_el (captureAndRegister page_live
        (Inr \<lparr>ok = False, json_body = Inl (SyntaxError ''Unexpected token < in JSON'')\<rparr>))
       = Some (cross_mark @ '' Server error during registration.'')
   \<and> streamRef (captureAndRegister page_live
        (Inr \<lparr>ok = False, json_body = Inl (SyntaxError ''Unexpected token < in JSON'')\<rparr>))
       = Some camera_stream
   \<and> track_state (captureAndRegister page_live
        (Inr \<lparr>ok = False, json_body = Inl (SyntaxError ''Unexpected token < in JSON'')\<rparr>)) 7
       = Live"
proof -
  let ?resp = "\<lparr>ok = False, json_body = Inl (SyntaxError ''Unexpected token < in JSON'')\<rparr>"
  have h: "\<not> no_image (snd (captureImageBase64 page_live))"
    by (simp add: run_defs)
  have b: "json_body ?resp = Inl (SyntaxError ''Unexpected token < in JSON'')"
    by simp
  have s: "status_el page_live \<noteq> None" "streamRef page_live = Some camera_stream"
    "track_state page_live 7 = Live"
    by (simp_all add: run_defs)
  from register_unparsable_body [OF h b] h s show ?thesis by simp
qed

text \<open>
  Claim C6. On a page with a status element, when a flow has sent a picture and the answer's
  body is an object whose \<open>ok\<close> is false (or absent), the status text is the cross mark, a
  space and the text of \<open>error\<close>, exactly, if \<open>error\<close> is a string that is not empty; if
  \<open>error\<close> is absent or the empty string it is the cross mark, a space and the flow's own
  fixed text.
\<close>

theorem rejection_status_text:
  assumes img: "\<not> no_image (snd (captureImageBase64 w))"
    and st: "status_el w = Some old"
    and body: "json_body resp = Inr (JObject kvs)"
    and rej: "\<not> truthy (map_of (rev kvs) ''ok'')"
  shows "(map_of (rev kvs) ''error'' = Some (JString x) \<and> x \<noteq> [] \<longrightarrow>
            status_el (captureAndRegister w (Inr resp)) = Some (cross_mark @ '' '' @ x)
            \<and> status_el (captureAndVerifyVote w (Inr resp)) = Some (cross_mark @ '' '' @ x)
            \<and> status_el (captureAndLogin w (Inr resp)) = Some (cross_mark @ '' '' @ x))
    \<and> (map_of (rev kvs) ''error'' = None \<or> map_of (rev kvs) ''error'' = Some (JString []) \<longrightarrow>
            status_el (captureAndRegister w (Inr resp)) = Some (cross_mark @ '' Registration failed.'')
            \<and> status_el (captureAndVerifyVote w (Inr resp)) = Some (cross_mark @ '' Verification failed.'')
            \<and> status_el (captureAndLogin w (Inr resp)) = Some (cross_mark @ '' Login failed.''))"
proof -
  from image_capture [OF img] obtain w1 uri where
    c: "captureImageBase64 w = (w1, Some uri)" "uri \<noteq> []" "w1 = fst (captureImageBase64 w)"
    by blast
  have w1: "status_el w1 = Some old"
    using c(3) st by simp
  have rj: "rejected resp (JObject kvs) = Inr True"
    using rej by (simp add: rejected_object)
  have s: "status_el (emit e (set_status m w1)) = Some m" for e m
    by (simp add: w1)
  have r: "status_el (captureAndRegister w (Inr resp)) =
      Some (cross_mark @ '' '' @
        (if truthy (map_of (rev kvs) ''error'')
         then val_to_string (map_of (rev kvs) ''error'') else ''Registration failed.''))"
    by (simp add: captureAndRegister_sent [OF c(1,2)] register_try_def body rj
        show_rejection_text [OF s])
  have v: "status_el (captureAndVerifyVote w (Inr resp)) =
      Some (cross_mark @ '' '' @
        (if truthy (map_of (rev kvs) ''error'')
         then val_to_string (map_of (rev kvs) ''error'') else ''Verification failed.''))"
    by (simp add: captureAndVerifyVote_sent [OF c(1,2)] verify_try_def body rj
        show_rejection_text [OF s])
  have l: "status_el (captureAndLogin w (Inr resp)) =
      Some (cross_mark @ '' '' @
        (if truthy (map_of (rev kvs) ''error'')
         then val_to_string (map_of (rev kvs) ''error'') else ''Login failed.''))"
    by (simp add: captureAndLogin_sent [OF c(1,2)] login_try_def body rj
        show_rejection_text [OF s])
  show ?thesis
    by (auto simp: r v l val_to_string_def)
qed

theorem rejection_status_text_witness:
  "\<not> no_image (snd (captureImageBase64 page_live))
   \<and> status_el page_live = Some []
   \<and> \<not> truthy (map_of (rev [(''ok'', JBool False), (''error'', JString ''Face not recognised'')]) ''ok'')
   \<and> map_of (rev [(''ok'', JBool False), (''error'', JString ''Face not recognised'')]) ''error''
       = Some (JString ''Face not recognised'')
   \<and> status_el (captureAndVerifyVote page_live
        (Inr \<lparr>ok = True, json_body = Inr (JObject [(''ok'', JBool False), (''error'', JString ''Face not recognised'')])\<rparr>))
       = Some (cross_mark @ '' Face not recognised'')
   \<and> map_of (rev [(''ok'', JBool False)]) ''error'' = None
   \<and> status_el (captureAndLogin page_live
        (Inr \<lparr>ok = False, json_body = Inr (JObject [(''ok'', JBool False)])\<rparr>))
       = Some (cross_mark @ '' Login failed.'')"
proof -
  let ?kvs = "[(''ok'', JBool False), (''error'', JString ''Face not recognised'')]"
  let ?resp = "\<lparr>ok = True, json_body = Inr (JObject ?kvs)\<rparr>"
  let ?bare = "\<lparr>ok = False, json_body = Inr (JObject [(''ok'', JBool False)])\<rparr>"
  have h: "\<not> no_image (snd (captureImageBase64 page_live))"
    by (simp add: run_defs)
  have s: "status_el page_live = Some []"
    by (simp add: run_defs)
  have b: "json_body ?resp = Inr (JObject ?kvs)" "\<not> truthy (map_of (rev ?kvs) ''ok'')"
    "json_body ?bare = Inr (JObject [(''ok'', JBool False)])"
    "\<not> truthy (map_of (rev [(''ok'', JBool False)]) ''ok'')"
    by simp_all
  have e: "map_of (rev ?kvs) ''error'' = Some (JString ''Face not recognised'')"
    "map_of (rev [(''ok'', JBool False)]) ''error'' = None"
    by simp_all
  from rejection_status_text [OF h s b(1,2), of "''Face not recognised''"]
    rejection_status_text [OF h s b(3,4), of "[]"] h s b e
  show ?thesis by simp
qed

subsection \<open>Starting the camera\<close>

text \<open>
  Claim C4 as the specification words it does not hold for a failure of playback: on the
  idle sample page the camera request resolves and \<open>video.play()\<close> rejects; the error text is
  shown, and \<open>streamRef\<close>, empty before, holds the new stream, whose track is still live.
\<close>

theorem startCamera_play_failure_counterexample:
  "video_el page_idle \<noteq> None \<and> mediaDevices page_idle \<and> streamRef page_idle = None
   \<and> streamRef (startCamera page_idle (Inr camera_stream) (Inl (DOMException ''The play() request was interrupted'')))
       = Some camera_stream
   \<and> status_el (startCamera page_idle (Inr camera_stream) (Inl (DOMException ''The play() request was interrupted'')))
       = Some (cross_mark @ '' Camera error: The play() request was interrupted'')
   \<and> track_state (startCamera page_idle (Inr camera_stream) (Inl (DOMException ''The play() request was interrupted''))) 7
       = Live"
  by (simp add: run_defs)

text \<open>
  Claim C4, as amended. When the capture interface is missing, \<open>startCamera\<close> shows the
  not-supported text and asks for no camera; when the camera request rejects (permission
  denied, device error), it logs the error and shows the camera-error text with the error's
  message; in both cases \<open>streamRef\<close> and the video element are as before. When playback
  rejects after the camera request resolved, it logs and shows the error in the same way,
  but \<open>streamRef\<close> holds the new stream and no track has been stopped. The texts appear
  where the page has a status element.
\<close>

theorem startCamera_failure:
  "(video_el w \<noteq> None \<and> \<not> mediaDevices w \<longrightarrow>
      streamRef (startCamera w acquired played) = streamRef w
      \<and> video_el (startCamera w acquired played) = video_el w
      \<and> effects (startCamera w acquired played) = effects w
      \<and> (status_el w \<noteq> None \<longrightarrow>
            status_el (startCamera w acquired played) = Some ''Camera not supported in this browser.''))
   \<and> (video_el w \<noteq> None \<and> mediaDevices w \<longrightarrow>
        streamRef (startCamera w (Inl err) played) = streamRef w
        \<and> video_el (startCamera w (Inl err) played) = video_el w
        \<and> effects (startCamera w (Inl err) played) = effects w @ [GetUserMedia, ConsoleError (ErrObj err)]
        \<and> (status_el w \<noteq> None \<longrightarrow>
              status_el (startCamera w (Inl err) played)
                = Some (cross_mark @ '' Camera error: '' @ message err)))
   \<and> (video_el w \<noteq> None \<and> mediaDevices w \<longrightarrow>
        streamRef (startCamera w (Inr s) (Inl err)) = Some s
        \<and> track_state (startCamera w (Inr s) (Inl err)) = track_state w
        \<and> effects (startCamera w (Inr s) (Inl err))
            = effects w @ [GetUserMedia, Play, ConsoleError (ErrObj err)]
        \<and> (status_el w \<noteq> None \<longrightarrow>
              status_el (startCamera w (Inr s) (Inl err))
                = Some (cross_mark @ '' Camera error: '' @ message err)))"
  by (auto simp: startCamera_def camera_catch_def Let_def split: option.splits)

theorem startCamera_failure_witness:
  "video_el page_idle \<noteq> None \<and> mediaDevices page_idle \<and> status_el page_idle \<noteq> None
   \<and> \<not> mediaDevices (page_idle\<lparr>mediaDevices := False\<rparr>)
   \<and> status_el (startCamera (page_idle\<lparr>mediaDevices := False\<rparr>) (Inr camera_stream) (Inr ()))
       = Some ''Camera not supported in this browser.''
   \<and> streamRef (startCamera (page_idle\<lparr>mediaDevices := False\<rparr>) (Inr camera_stream) (Inr ())) = None
   \<and> status_el (startCamera page_idle (Inl (DOMException ''Permission denied'')) (Inr ()))
       = Some (cross_mark @ '' Camera error: Permission denied'')
   \<and> streamRef (startCamera page_idle (Inl (DOMException ''Permission denied'')) (Inr ())) = None
   \<and> streamRef (startCamera page_idle (Inr camera_stream) (Inl (DOMException ''interrupted'')))
       = Some camera_stream"
proof -
  have p: "video_el page_idle \<noteq> None" "mediaDevices page_idle" "status_el page_idle \<noteq> None"
    "streamRef page_idle = None"
    by (simp_all add: page_idle_def)
  have q: "video_el (page_idle\<lparr>mediaDevices := False\<rparr>) \<noteq> None"
    "\<not> mediaDevices (page_idle\<lparr>mediaDevices := False\<rparr>)"
    "status_el (page_idle\<lparr>mediaDevices := False\<rparr>) \<noteq> None"
    "streamRef (page_idle\<lparr>mediaDevices := False\<rparr>) = None"
    by (simp_all add: page_idle_def)
  from p q
    startCamera_failure [of "page_idle\<lparr>mediaDevices := False\<rparr>" "Inr camera_stream" "Inr ()"]
    startCamera_failure [of page_idle _ "Inr ()" "DOMException ''Permission denied''"]
    startCamera_failure [of page_idle _ _ "DOMException ''interrupted''" camera_stream]
  show ?thesis by simp
qed

subsection \<open>Missing page elements\<close>

text \<open>
  Claim C9 as the specification words it does not hold for \<open>captureImageBase64\<close>: without
  the video element, and without the canvas, it returns \<open>null\<close> and leaves the world as it
  is, and \<open>captureAndRegister\<close> on such a page adds nothing to the effect list, so nothing
  is logged on the console.
\<close>

theorem capture_missing_element_counterexample:
  "video_el (page_live\<lparr>video_el := None\<rparr>) = None
   \<and> captureImageBase64 (page_live\<lparr>video_el := None\<rparr>) = (page_live\<lparr>video_el := None\<rparr>, None)
   \<and> effects (captureAndRegister (page_live\<lparr>video_el := None\<rparr>) (Inl (TypeError ''Failed to fetch''))) = []
   \<and> canvas_el (page_live\<lparr>canvas_el := None\<rparr>) = None
   \<and> captureImageBase64 (page_live\<lparr>canvas_el := None\<rparr>) = (page_live\<lparr>canvas_el := None\<rparr>, None)
   \<and> effects (captureAndRegister (page_live\<lparr>canvas_el := None\<rparr>) (Inl (TypeError ''Failed to fetch''))) = []"
  by (simp add: run_defs)

text \<open>
  Claim C9, as amended. Without the video element \<open>startCamera\<close> logs \<open>Video element not
  found.\<close> on the console and does nothing else. Without the video element or the canvas
  \<open>captureImageBase64\<close> returns \<open>null\<close> and changes nothing, and the three submit flows
  add nothing to the effect list: no console line and no request (they show the warning
  text instead). Without the status element no text is shown and the work goes on:
  \<open>startCamera\<close> still takes the stream the camera request resolves to, and each submit
  flow that has a picture still sends its request.
\<close>

theorem missing_elements:
  "(video_el w = None \<longrightarrow>
      startCamera w acquired played = console_error (Msg ''Video element not found.'') w
      \<and> effects (startCamera w acquired played) = effects w @ [ConsoleError (Msg ''Video element not found.'')])
   \<and> (video_el w = None \<or> canvas_el w = None \<longrightarrow>
        captureImageBase64 w = (w, None)
        \<and> effects (captureAndRegister w fetched) = effects w
        \<and> effects (captureAndVerifyVote w fetched) = effects w
        \<and> effects (captureAndLogin w fetched) = effects w)
   \<and> (status_el w = None \<longrightarrow>
        status_el (startCamera w acquired played) = None
        \<and> status_el (captureAndRegister w fetched) = None
        \<and> status_el (captureAndVerifyVote w fetched) = None
        \<and> status_el (captureAndLogin w fetched) = None
        \<and> (video_el w \<noteq> None \<and> mediaDevices w \<longrightarrow> streamRef (startCamera w (Inr s) played) = Some s)
        \<and> (\<not> no_image (snd (captureImageBase64 w)) \<longrightarrow>
              (\<exists>body. requests (effects (captureAndRegister w fetched))
                        = requests (effects w) @ [(''/api/register-face'', body)])
              \<and> (\<exists>body. requests (effects (captureAndVerifyVote w fetched))
                        = requests (effects w) @ [(''/api/vote-face-verify'', body)])
              \<and> (\<exists>body. requests (effects (captureAndLogin w fetched))
                        = requests (effects w) @ [(''/api/login-face-verify'', body)])))"
proof -
  have A: "video_el w = None \<longrightarrow>
      startCamera w acquired played = console_error (Msg ''Video element not found.'') w
      \<and> effects (startCamera w acquired played) = effects w @ [ConsoleError (Msg ''Video element not found.'')]"
    by (simp add: startCamera_def)
  have B: "video_el w = None \<or> canvas_el w = None \<longrightarrow>
        captureImageBase64 w = (w, None)
        \<and> effects (captureAndRegister w fetched) = effects w
        \<and> effects (captureAndVerifyVote w fetched) = effects w
        \<and> effects (captureAndLogin w fetched) = effects w"
  proof
    assume "video_el w = None \<or> canvas_el w = None"
    then have c: "captureImageBase64 w = (w, None)" by (rule capture_without_element)
    then show "captureImageBase64 w = (w, None)
        \<and> effects (captureAndRegister w fetched) = effects w
        \<and> effects (captureAndVerifyVote w fetched) = effects w
        \<and> effects (captureAndLogin w fetched) = effects w"
      by (simp add: captureAndRegister_def captureAndVerifyVote_def captureAndLogin_def no_image_def)
  qed
  have C: "status_el w = None \<longrightarrow>
        status_el (startCamera w acquired played) = None
        \<and> status_el (captureAndRegister w fetched) = None
        \<and> status_el (captureAndVerifyVote w fetched) = None
        \<and> status_el (captureAndLogin w fetched) = None"
    by (simp add: status_None_startCamera status_None_captureAndRegister
        status_None_captureAndVerifyVote status_None_captureAndLogin)
  have D: "video_el w \<noteq> None \<and> mediaDevices w \<longrightarrow> streamRef (startCamera w (Inr s) played) = Some s"
    by (simp add: streamRef_startCamera)
  have E: "\<not> no_image (snd (captureImageBase64 w)) \<longrightarrow>
              (\<exists>body. requests (effects (captureAndRegister w fetched))
                        = requests (effects w) @ [(''/api/register-face'', body)])
              \<and> (\<exists>body. requests (effects (captureAndVerifyVote w fetched))
                        = requests (effects w) @ [(''/api/vote-face-verify'', body)])
              \<and> (\<exists>body. requests (effects (captureAndLogin w fetched))
                        = requests (effects w) @ [(''/api/login-face-verify'', body)])"
    using captureAndRegister_requests captureAndVerifyVote_requests captureAndLogin_requests
    by blast
  from A B C D E show ?thesis by blast
qed

theorem missing_elements_witness:
  "video_el (page_idle\<lparr>video_el := None\<rparr>) = None
   \<and> effects (startCamera (page_idle\<lparr>video_el := None\<rparr>) (Inr camera_stream) (Inr ()))
       = [ConsoleError (Msg ''Video element not found.'')]
   \<and> canvas_el (page_live\<lparr>canvas_el := None\<rparr>) = None
   \<and> effects (captureAndLogin (page_live\<lparr>canvas_el := None\<rparr>) (Inl (TypeError ''Failed to fetch''))) = []
   \<and> status_el (page_live\<lparr>status_el := None\<rparr>) = None
   \<and> \<not> no_image (snd (captureImageBase64 (page_live\<lparr>status_el := None\<rparr>)))
   \<and> status_el (captureAndVerifyVote (page_live\<lparr>status_el := None\<rparr>) (Inl (TypeError ''Failed to fetch''))) = None
   \<and> (\<exists>body. requests (effects (captureAndVerifyVote (page_live\<lparr>status_el := None\<rparr>) (Inl (TypeError ''Failed to fetch''))))
                = [(''/api/vote-face-verify'', body)])
   \<and> streamRef (startCamera (page_idle\<lparr>status_el := None\<rparr>) (Inr camera_stream) (Inr ())) = Some camera_stream"
proof -
  have a: "video_el (page_idle\<lparr>video_el := None\<rparr>) = None"
    "effects (page_idle\<lparr>video_el := None\<rparr>) = []"
    by (simp_all add: page_idle_def)
  have b: "canvas_el (page_live\<lparr>canvas_el := None\<rparr>) = None"
    "effects (page_live\<lparr>canvas_el := None\<rparr>) = []"
    by (simp_all add: page_live_def page_idle_def)
  have c: "status_el (page_live\<lparr>status_el := None\<rparr>) = None"
    "\<not> no_image (snd (captureImageBase64 (page_live\<lparr>status_el := None\<rparr>)))"
    "requests (effects (page_live\<lparr>status_el := None\<rparr>)) = []"
    by (simp_all add: run_defs)
  have d: "status_el (page_idle\<lparr>status_el := None\<rparr>) = None"
    "video_el (page_idle\<lparr>status_el := None\<rparr>) \<noteq> None"
    "mediaDevices (page_idle\<lparr>status_el := None\<rparr>)"
    by (simp_all add: page_idle_def)
  from a b c d
    missing_elements [of "page_idle\<lparr>video_el := None\<rparr>" "Inr camera_stream" "Inr ()"]
    missing_elements [of "page_live\<lparr>canvas_el := None\<rparr>" _ _ "Inl (TypeError ''Failed to fetch'')"]
    missing_elements [of "page_live\<lparr>status_el := None\<rparr>" _ _ "Inl (TypeError ''Failed to fetch'')"]
    missing_elements [of "page_idle\<lparr>status_el := None\<rparr>" _ "Inr ()" _ camera_stream]
  show ?thesis by simp
qed

end
